theory Spec2Isabelle
  imports Complex_Main "HOL-Library.Sublist" "HOL-Library.Monad_Syntax"
begin

section \<open>Values, dictionaries and errors\<close>

text \<open>
  The catalog of \<^verbatim>\<open>library_system/services/library_manager.py\<close> keeps a list of
  resources in memory and mirrors it to a file through \<^verbatim>\<open>Storage\<close>. A persisted
  resource is a Python \<^verbatim>\<open>Dict[str, Any]\<close>; its values are modelled by \<open>pyval\<close>: \<^verbatim>\<open>None\<close>,
  a string, an integer, or a number that is not an integer. No arithmetic is ever done on
  a number, it is only carried from a resource to a dictionary and back, so a float is
  modelled by the rational it denotes.

  A Python \<^verbatim>\<open>str\<close> is the list of its code points. A string literal of the source is
  written \<open>str ''...''\<close>. The keys of a dictionary, the name of the storage file and the
  message of an error of the store are only ever compared, and stay HOL strings.
\<close>

type_synonym pystr = "nat list"

definition str :: "string \<Rightarrow> pystr" where
  "str s = map of_char s"

datatype pyval = PNone | PStr pystr | PInt int | PNum rat

text \<open>
  A dictionary is an association list; a key is looked up with \<open>map_of\<close> and
  \<^verbatim>\<open>data.pop(key)\<close> drops every entry of the key.
\<close>

type_synonym pydict = "(string \<times> pyval) list"

text \<open>
  The exceptions of the source, as values.
  \<^item> \<open>ValueError_exists i\<close> is \<^verbatim>\<open>ValueError(f"Resource with ID {i} already exists.")\<close>, the
    spec's DuplicateIdentifier;
  \<^item> \<open>ValueError_unknown_type t\<close> is \<^verbatim>\<open>ValueError(f"Unknown resource type: {t}")\<close>, the
    spec's UnrecognizedType;
  \<^item> \<open>KeyError k\<close> is what \<^verbatim>\<open>dict.pop(k)\<close> raises when the key is absent;
  \<^item> \<open>TypeError\<close> is what a constructor call raises on keyword arguments that are not
    its parameters;
  \<^item> \<open>OSError msg\<close> stands for whatever the storage collaborator raises (the spec's
    StorageWriteFailure and StorageReadFailure).
\<close>

datatype error =
    ValueError_exists pystr
  | ValueError_unknown_type pyval
  | KeyError string
  | TypeError
  | OSError string

section \<open>Resources\<close>

text \<open>
  Modelled from the spec: the classes \<^verbatim>\<open>LibraryResource\<close>, \<^verbatim>\<open>Book\<close>, \<^verbatim>\<open>EBook\<close> and
  \<^verbatim>\<open>Audiobook\<close> are imported by the manager; their modules lie outside the manager's
  file. The spec (section 3) describes them as plain data carriers with a fixed
  attribute list each: the common attributes identifier, title, author, standard number
  (strings) and page count (an integer, possibly absent), the file size (a number) and
  file format (a string) of the electronic variant, the duration (a number) and narrator
  (a string) of the audio variant. The attribute names are the ones the manager reads.
  The variant is the class of the object: \<^verbatim>\<open>resource.__class__.__name__\<close> and
  \<^verbatim>\<open>isinstance\<close> only look at it.
\<close>

datatype variant =
    Book
  | EBook (file_size_mb: rat) (file_format: pystr)
  | Audiobook (duration_minutes: rat) (narrator: pystr)

record LibraryResource =
  resource_id :: pystr
  title :: pystr
  author :: pystr
  isbn :: pystr
  page_count :: "int option"
  variant :: variant

fun class_name :: "variant \<Rightarrow> string" where
  "class_name Book = ''Book''"
| "class_name (EBook _ _) = ''EBook''"
| "class_name (Audiobook _ _) = ''Audiobook''"

text \<open>Reading a keyword argument at the type of its attribute.\<close>

fun str_arg :: "pydict \<Rightarrow> string \<Rightarrow> pystr option" where
  "str_arg kw k = (case map_of kw k of Some (PStr s) \<Rightarrow> Some s | _ \<Rightarrow> None)"

fun int_arg :: "pydict \<Rightarrow> string \<Rightarrow> int option option" where
  "int_arg kw k =
     (case map_of kw k of
        Some (PInt n) \<Rightarrow> Some (Some n)
      | Some PNone \<Rightarrow> Some None
      | _ \<Rightarrow> None)"

fun num_arg :: "pydict \<Rightarrow> string \<Rightarrow> rat option" where
  "num_arg kw k =
     (case map_of kw k of
        Some (PNum q) \<Rightarrow> Some q
      | Some (PInt n) \<Rightarrow> Some (of_int n)
      | _ \<Rightarrow> None)"

definition common_attrs :: "string list" where
  "common_attrs = [''resource_id'', ''title'', ''author'', ''isbn'', ''page_count'']"

definition ebook_attrs :: "string list" where
  "ebook_attrs = [''file_size_mb'', ''file_format'']"

definition audiobook_attrs :: "string list" where
  "audiobook_attrs = [''duration_minutes'', ''narrator'']"

text \<open>
  Modelled from the spec: a constructor call \<^verbatim>\<open>Cls(**kw)\<close> of one of the three classes.
  Python raises \<^verbatim>\<open>TypeError\<close> on a keyword that is not a parameter and on a parameter
  that is not given; the parameters are the attributes of the class. A value that is not
  of its attribute's type (section 3 of the spec) does not denote a record of the data
  model, and the model refuses it the same way.
\<close>

definition construct ::
  "string list \<Rightarrow> (pydict \<Rightarrow> variant option) \<Rightarrow> pydict \<Rightarrow> error + LibraryResource" where
  "construct extra mk kw =
     (if \<not> list_all (\<lambda>k. k \<in> set (common_attrs @ extra)) (map fst kw) then Inl TypeError
      else
        (case do {
           i \<leftarrow> str_arg kw ''resource_id'';
           t \<leftarrow> str_arg kw ''title'';
           a \<leftarrow> str_arg kw ''author'';
           n \<leftarrow> str_arg kw ''isbn'';
           p \<leftarrow> int_arg kw ''page_count'';
           v \<leftarrow> mk kw;
           Some \<lparr>resource_id = i, title = t, author = a, isbn = n, page_count = p,
                 variant = v\<rparr>
         } of
           None \<Rightarrow> Inl TypeError
         | Some r \<Rightarrow> Inr r))"

definition new_Book :: "pydict \<Rightarrow> error + LibraryResource" where
  "new_Book = construct [] (\<lambda>kw. Some Book)"

definition new_EBook :: "pydict \<Rightarrow> error + LibraryResource" where
  "new_EBook =
     construct ebook_attrs
       (\<lambda>kw. do {
          s \<leftarrow> num_arg kw ''file_size_mb'';
          f \<leftarrow> str_arg kw ''file_format'';
          Some (EBook s f)
        })"

definition new_Audiobook :: "pydict \<Rightarrow> error + LibraryResource" where
  "new_Audiobook =
     construct audiobook_attrs
       (\<lambda>kw. do {
          d \<leftarrow> num_arg kw ''duration_minutes'';
          n \<leftarrow> str_arg kw ''narrator'';
          Some (Audiobook d n)
        })"

section \<open>Serialization\<close>

text \<open>
  \<^verbatim>\<open>_resource_to_dict\<close>: the type tag and the common attributes, then
  \<^verbatim>\<open>data.update(...)\<close> with the attributes of an \<^verbatim>\<open>EBook\<close> or of an \<^verbatim>\<open>Audiobook\<close>. The
  updated keys are new, so the update appends them.
\<close>

fun page_count_val :: "int option \<Rightarrow> pyval" where
  "page_count_val None = PNone"
| "page_count_val (Some n) = PInt n"

definition resource_to_dict :: "LibraryResource \<Rightarrow> pydict" where
  "resource_to_dict resource =
     (let data =
        [(''type'', PStr (str (class_name (variant resource)))),
         (''resource_id'', PStr (resource_id resource)),
         (''title'', PStr (title resource)),
         (''author'', PStr (author resource)),
         (''isbn'', PStr (isbn resource)),
         (''page_count'', page_count_val (page_count resource))]
      in
        (case variant resource of
           EBook s f \<Rightarrow> data @ [(''file_size_mb'', PNum s), (''file_format'', PStr f)]
         | Audiobook d n \<Rightarrow> data @ [(''duration_minutes'', PNum d), (''narrator'', PStr n)]
         | Book \<Rightarrow> data))"

text \<open>
  \<^verbatim>\<open>_dict_to_resource\<close>: \<^verbatim>\<open>data.pop("type")\<close> raises \<^verbatim>\<open>KeyError\<close> when the key is absent;
  otherwise the tag is compared with the three class names in the order of the source
  and the rest of the dictionary is passed to the constructor.
\<close>

definition dict_to_resource :: "pydict \<Rightarrow> error + LibraryResource" where
  "dict_to_resource data =
     (case map_of data ''type'' of
        None \<Rightarrow> Inl (KeyError ''type'')
      | Some res_type \<Rightarrow>
          (let data' = filter (\<lambda>kv. fst kv \<noteq> ''type'') data in
             if res_type = PStr (str ''EBook'') then new_EBook data'
             else if res_type = PStr (str ''Audiobook'') then new_Audiobook data'
             else if res_type = PStr (str ''Book'') then new_Book data'
             else Inl (ValueError_unknown_type res_type)))"

text \<open>A list comprehension whose body may raise: the first exception ends it.\<close>

fun map_result :: "('a \<Rightarrow> error + 'b) \<Rightarrow> 'a list \<Rightarrow> error + 'b list" where
  "map_result f [] = Inr []"
| "map_result f (x # xs) =
     (case f x of
        Inl e \<Rightarrow> Inl e
      | Inr y \<Rightarrow> (case map_result f xs of Inl e \<Rightarrow> Inl e | Inr ys \<Rightarrow> Inr (y # ys)))"

section \<open>The storage collaborator\<close>

text \<open>
  \<^verbatim>\<open>Storage.load_data\<close> and \<^verbatim>\<open>Storage.save_data\<close> live in
  \<^verbatim>\<open>library_system/utils/storage.py\<close>, a module outside the manager's file, and the
  spec treats them as an external store. They are parameters of the model: \<open>'fs\<close> is the
  state of the file system, reading returns the persisted dictionaries or raises, and
  writing returns the new state of the file system together with its outcome (a write
  that raises may still have changed the file).
\<close>

record 'fs Storage =
  load_data :: "string \<Rightarrow> 'fs \<Rightarrow> error + pydict list"
  save_data :: "string \<Rightarrow> pydict list \<Rightarrow> 'fs \<Rightarrow> (error + unit) \<times> 'fs"

section \<open>The manager\<close>

record LibraryManager =
  storage_file :: string
  resources :: "LibraryResource list"

text \<open>
  A method that mutates the manager and the file returns its outcome, the manager and
  the file system as they are when it returns or raises.
\<close>

type_synonym 'fs outcome = "(error + unit) \<times> LibraryManager \<times> 'fs"

definition save_resources :: "'fs Storage \<Rightarrow> LibraryManager \<Rightarrow> 'fs \<Rightarrow> (error + unit) \<times> 'fs" where
  "save_resources st m fs =
     (let data = map resource_to_dict (resources m)
      in save_data st (storage_file m) data fs)"

definition load_resources :: "'fs Storage \<Rightarrow> LibraryManager \<Rightarrow> 'fs \<Rightarrow> error + LibraryManager" where
  "load_resources st m fs =
     (case load_data st (storage_file m) fs of
        Inl e \<Rightarrow> Inl e
      | Inr data \<Rightarrow>
          (case map_result dict_to_resource data of
             Inl e \<Rightarrow> Inl e
           | Inr rs \<Rightarrow> Inr (m\<lparr>resources := rs\<rparr>)))"

text \<open>\<^verbatim>\<open>__init__\<close>: an exception of the load leaves no manager.\<close>

definition init :: "'fs Storage \<Rightarrow> string \<Rightarrow> 'fs \<Rightarrow> error + LibraryManager" where
  "init st file fs = load_resources st \<lparr>storage_file = file, resources = []\<rparr> fs"

definition get_resource :: "LibraryManager \<Rightarrow> pystr \<Rightarrow> LibraryResource option" where
  "get_resource m rid = find (\<lambda>r. resource_id r = rid) (resources m)"

definition add_resource ::
  "'fs Storage \<Rightarrow> LibraryResource \<Rightarrow> LibraryManager \<times> 'fs \<Rightarrow> 'fs outcome" where
  "add_resource st resource s =
     (case s of (m, fs) \<Rightarrow>
        if list_ex (\<lambda>r. resource_id r = resource_id resource) (resources m)
        then (Inl (ValueError_exists (resource_id resource)), m, fs)
        else
          (let m' = m\<lparr>resources := resources m @ [resource]\<rparr>
           in case save_resources st m' fs of (res, fs') \<Rightarrow> (res, m', fs')))"

text \<open>
  \<^verbatim>\<open>remove_resource\<close>: an object of a plain class is true in \<^verbatim>\<open>if resource:\<close>, so the
  branch is taken exactly when \<^verbatim>\<open>get_resource\<close> found one. \<^verbatim>\<open>list.remove\<close> deletes the
  first element equal to its argument.
\<close>

definition remove_resource ::
  "'fs Storage \<Rightarrow> pystr \<Rightarrow> LibraryManager \<times> 'fs \<Rightarrow> 'fs outcome" where
  "remove_resource st rid s =
     (case s of (m, fs) \<Rightarrow>
        (case get_resource m rid of
           None \<Rightarrow> (Inr (), m, fs)
         | Some resource \<Rightarrow>
             (let m' = m\<lparr>resources := remove1 resource (resources m)\<rparr>
              in case save_resources st m' fs of (res, fs') \<Rightarrow> (res, m', fs'))))"

definition get_all_resources :: "LibraryManager \<Rightarrow> LibraryResource list" where
  "get_all_resources m = resources m"

subsection \<open>Search\<close>







section \<open>Notions of the specification\<close>

text \<open>The invariant of the catalog: no two records share an identifier.\<close>

definition unique_ids :: "LibraryManager \<Rightarrow> bool" where
  "unique_ids m = distinct (map resource_id (resources m))"








text \<open>
  A store is faithful when a read that follows a successful write of a file returns what
  was written; it never fails when every write succeeds.
\<close>

definition faithful :: "'fs Storage \<Rightarrow> bool" where
  "faithful st =
     (\<forall>file data fs fs'.
        save_data st file data fs = (Inr (), fs') \<longrightarrow> load_data st file fs' = Inr data)"

definition never_fails :: "'fs Storage \<Rightarrow> bool" where
  "never_fails st = (\<forall>file data fs. fst (save_data st file data fs) = Inr ())"

text \<open>
  A caller that adds the records of a list one after the other and keeps the outcome of
  every call (an exception of one call does not stop the next one).
\<close>

fun add_all ::
  "'fs Storage \<Rightarrow> LibraryResource list \<Rightarrow> LibraryManager \<times> 'fs \<Rightarrow>
     (error + unit) list \<times> LibraryManager \<times> 'fs" where
  "add_all st [] s = ([], s)"
| "add_all st (r # rs) s =
     (case add_resource st r s of
        (res, s') \<Rightarrow> (case add_all st rs s' of (ress, s'') \<Rightarrow> (res # ress, s'')))"

text \<open>
  The writes that such a caller expects of the store: for each record of the list in
  turn, one write to the file \<open>f\<close> of the dictionaries of the records accepted so far
  (\<open>acc\<close>) followed by those of the list up to that record, each write on the file
  system that the write before it left. The result is the outcomes of the writes and
  the file system after the last one.
\<close>

fun write_all ::
  "'fs Storage \<Rightarrow> string \<Rightarrow> LibraryResource list \<Rightarrow> LibraryResource list \<Rightarrow> 'fs \<Rightarrow>
     (error + unit) list \<times> 'fs" where
  "write_all st f acc [] fs = ([], fs)"
| "write_all st f acc (r # rs) fs =
     (case save_data st f (map resource_to_dict (acc @ [r])) fs of
        (res, fs') \<Rightarrow>
          (case write_all st f (acc @ [r]) rs fs' of (ress, fs'') \<Rightarrow> (res # ress, fs'')))"

section \<open>Three stores and a few records\<close>

text \<open>
  A store that keeps the files in an association list and never fails (a file that was
  never written reads as the empty list); one whose disk is full: it reads the same
  way, and every write raises and leaves the files as they are; and one whose disk has
  room for a single record: a write of more raises and leaves the files as they are.
\<close>

type_synonym files = "(string \<times> pydict list) list"

definition read_file :: "string \<Rightarrow> files \<Rightarrow> error + pydict list" where
  "read_file file fs = (case map_of fs file of None \<Rightarrow> Inr [] | Some data \<Rightarrow> Inr data)"

definition reliable_storage :: "files Storage" where
  "reliable_storage =
     \<lparr>load_data = read_file,
      save_data = (\<lambda>file data fs. (Inr (), (file, data) # filter (\<lambda>e. fst e \<noteq> file) fs))\<rparr>"

definition full_disk_storage :: "files Storage" where
  "full_disk_storage =
     \<lparr>load_data = read_file,
      save_data = (\<lambda>file data fs. (Inl (OSError ''No space left on device''), fs))\<rparr>"

definition small_disk_storage :: "files Storage" where
  "small_disk_storage =
     \<lparr>load_data = read_file,
      save_data =
        (\<lambda>file data fs.
           if length data \<le> 1 then (Inr (), (file, data) # filter (\<lambda>e. fst e \<noteq> file) fs)
           else (Inl (OSError ''No space left on device''), fs))\<rparr>"

definition dune :: LibraryResource where
  "dune =
     \<lparr>resource_id = str ''b1'', title = str ''Dune'', author = str ''Frank Herbert'',
      isbn = str ''978-0441013593'', page_count = Some 412, variant = Book\<rparr>"

definition dune_ebook :: LibraryResource where
  "dune_ebook =
     \<lparr>resource_id = str ''e1'', title = str ''Dune'', author = str ''Frank Herbert'',
      isbn = str ''978-0441013593'', page_count = Some 412,
      variant = EBook (16 / 5) (str ''EPUB'')\<rparr>"

definition hobbit_audio :: LibraryResource where
  "hobbit_audio =
     \<lparr>resource_id = str ''a1'', title = str ''The Hobbit'', author = str ''J.R.R. Tolkien'',
      isbn = str ''978-0261103344'', page_count = None,
      variant = Audiobook 683 (str ''Rob Inglis'')\<rparr>"

text \<open>A second record with the identifier of \<open>dune\<close>.\<close>

definition dune_messiah :: LibraryResource where
  "dune_messiah =
     \<lparr>resource_id = str ''b1'', title = str ''Dune Messiah'', author = str ''Frank Herbert'',
      isbn = str ''978-0593098233'', page_count = Some 336, variant = Book\<rparr>"

definition library_json :: string where
  "library_json = ''data/library.json''"

definition empty_manager :: LibraryManager where
  "empty_manager = \<lparr>storage_file = library_json, resources = []\<rparr>"

definition catalog :: LibraryManager where
  "catalog = \<lparr>storage_file = library_json, resources = [dune, dune_ebook, hobbit_audio]\<rparr>"







section \<open>Lemmas on the helper functions\<close>

lemma map_result_round_trip:
  "(\<And>x. g (f x) = Inr x) \<Longrightarrow> map_result g (map f xs) = Inr xs"
  by (induction xs) simp_all

subsection \<open>String literals\<close>

lemma str_eq_iff [simp]: "str a = str b \<longleftrightarrow> a = b"
  by (simp add: str_def inj_map_eq_map inj_on_def)

subsection \<open>Lower case and containment\<close>
















subsection \<open>The two outcomes of an add, the two outcomes of a remove\<close>

lemma add_resource_duplicate:
  assumes "list_ex (\<lambda>r. resource_id r = resource_id x) (resources m)"
  shows "add_resource st x (m, fs) = (Inl (ValueError_exists (resource_id x)), m, fs)"
  using assms by (simp add: add_resource_def)

lemma add_resource_fresh:
  assumes "\<not> list_ex (\<lambda>r. resource_id r = resource_id x) (resources m)"
  shows "add_resource st x (m, fs) =
     (fst (save_resources st (m\<lparr>resources := resources m @ [x]\<rparr>) fs),
      m\<lparr>resources := resources m @ [x]\<rparr>,
      snd (save_resources st (m\<lparr>resources := resources m @ [x]\<rparr>) fs))"
  using assms by (simp add: add_resource_def Let_def split: prod.splits)

lemma remove_resource_absent:
  assumes "get_resource m rid = None"
  shows "remove_resource st rid (m, fs) = (Inr (), m, fs)"
  using assms by (simp add: remove_resource_def)

lemma remove_resource_present:
  assumes "get_resource m rid = Some x"
  shows "remove_resource st rid (m, fs) =
     (fst (save_resources st (m\<lparr>resources := remove1 x (resources m)\<rparr>) fs),
      m\<lparr>resources := remove1 x (resources m)\<rparr>,
      snd (save_resources st (m\<lparr>resources := remove1 x (resources m)\<rparr>) fs))"
  using assms by (simp add: remove_resource_def Let_def split: prod.splits)

lemma get_resource_None_iff:
  "get_resource m rid = None \<longleftrightarrow> \<not> list_ex (\<lambda>r. resource_id r = rid) (resources m)"
  by (auto simp: get_resource_def find_None_iff list_ex_iff)

lemma get_resource_SomeD:
  assumes "get_resource m rid = Some x"
  shows "x \<in> set (resources m) \<and> resource_id x = rid"
  using assms unfolding get_resource_def find_Some_iff by auto

lemma distinct_map_remove1:
  "distinct (map f xs) \<Longrightarrow> distinct (map f (remove1 x xs))"
proof (induction xs)
  case Nil
  then show ?case by simp
next
  case (Cons a xs)
  have "f a \<notin> f ` set (remove1 x xs)"
    using Cons.prems set_remove1_subset [of x xs] by auto
  with Cons show ?case by simp
qed

lemma remove1_found_is_filter:
  "distinct (map f xs) \<Longrightarrow> find (\<lambda>r. f r = k) xs = Some x \<Longrightarrow>
     remove1 x xs = filter (\<lambda>r. f r \<noteq> k) xs"
proof (induction xs)
  case Nil
  then show ?case by simp
next
  case (Cons a xs)
  show ?case
  proof (cases "f a = k")
    case True
    with Cons.prems have "x = a" by simp
    moreover from Cons.prems have "f a \<notin> f ` set xs" by simp
    with True have "\<forall>r\<in>set xs. f r \<noteq> k" by blast
    ultimately show ?thesis using True by simp
  next
    case False
    with Cons.prems have "find (\<lambda>r. f r = k) xs = Some x" by simp
    moreover from this have "f x = k" by (auto simp: find_Some_iff)
    ultimately show ?thesis using False Cons by auto
  qed
qed

subsection \<open>A run of adds and the writes of the store\<close>

lemma write_all_Cons:
  "write_all st f acc (r # rs) fs =
     (fst (save_data st f (map resource_to_dict (acc @ [r])) fs)
        # fst (write_all st f (acc @ [r]) rs
                 (snd (save_data st f (map resource_to_dict (acc @ [r])) fs))),
      snd (write_all st f (acc @ [r]) rs
             (snd (save_data st f (map resource_to_dict (acc @ [r])) fs))))"
  by (simp split: prod.splits)

lemma length_write_all: "length (fst (write_all st f acc rs fs)) = length rs"
  by (induction rs arbitrary: acc fs) (simp_all add: write_all_Cons del: write_all.simps(2))

lemma write_all_append:
  "write_all st f acc (xs @ ys) fs =
     (fst (write_all st f acc xs fs)
        @ fst (write_all st f (acc @ xs) ys (snd (write_all st f acc xs fs))),
      snd (write_all st f (acc @ xs) ys (snd (write_all st f acc xs fs))))"
  by (induction xs arbitrary: acc fs) (simp_all add: write_all_Cons del: write_all.simps(2))

lemma write_all_nth:
  assumes "k < length rs"
  shows "fst (write_all st f [] rs fs) ! k =
     fst (save_data st f (map resource_to_dict (take (Suc k) rs))
            (snd (write_all st f [] (take k rs) fs)))"
proof -
  let ?fs = "snd (write_all st f [] (take k rs) fs)"
  have rs: "rs = take k rs @ (rs ! k # drop (Suc k) rs)"
    using assms by (simp add: Cons_nth_drop_Suc)
  have "fst (write_all st f [] rs fs) =
      fst (write_all st f [] (take k rs) fs)
        @ fst (write_all st f (take k rs) (rs ! k # drop (Suc k) rs) ?fs)"
    using write_all_append [of st f "[]" "take k rs" "rs ! k # drop (Suc k) rs" fs] rs
    by simp
  moreover have "length (fst (write_all st f [] (take k rs) fs)) = k"
    using assms by (simp add: length_write_all)
  ultimately have "fst (write_all st f [] rs fs) ! k =
      fst (write_all st f (take k rs) (rs ! k # drop (Suc k) rs) ?fs) ! 0"
    by (simp add: nth_append)
  also have "\<dots> = fst (save_data st f (map resource_to_dict (take k rs @ [rs ! k])) ?fs)"
    by (simp add: write_all_Cons del: write_all.simps(2))
  finally show ?thesis
    using assms by (simp add: take_Suc_conv_app_nth)
qed

lemma add_all_is_write_all:
  assumes "distinct (map resource_id (resources m @ rs))"
  shows "add_all st rs (m, fs) =
     (fst (write_all st (storage_file m) (resources m) rs fs),
      m\<lparr>resources := resources m @ rs\<rparr>,
      snd (write_all st (storage_file m) (resources m) rs fs))"
  using assms
proof (induction rs arbitrary: m fs)
  case Nil
  then show ?case by simp
next
  case (Cons r rs)
  let ?m1 = "m\<lparr>resources := resources m @ [r]\<rparr>"
  from Cons.prems have "resource_id r \<notin> resource_id ` set (resources m)"
    by auto
  then have "\<not> list_ex (\<lambda>x. resource_id x = resource_id r) (resources m)"
    unfolding list_ex_iff by (metis imageI)
  then have step: "add_resource st r (m, fs) =
      (fst (save_resources st ?m1 fs), ?m1, snd (save_resources st ?m1 fs))"
    by (rule add_resource_fresh)
  from Cons.prems have "distinct (map resource_id (resources ?m1 @ rs))"
    by simp
  from Cons.IH [OF this] step show ?case
    by (simp add: save_resources_def write_all_Cons del: write_all.simps(2))
qed

subsection \<open>Serialization\<close>

lemmas ctor_defs =
  new_Book_def new_EBook_def new_Audiobook_def construct_def
  common_attrs_def ebook_attrs_def audiobook_attrs_def

lemma dict_to_resource_inverse: "dict_to_resource (resource_to_dict r) = Inr r"
  by (cases r; cases "variant r"; cases "page_count r")
     (simp_all add: dict_to_resource_def resource_to_dict_def ctor_defs)

lemma resource_to_dict_keys:
  "map fst (resource_to_dict r) =
     ''type'' # common_attrs @
       (case variant r of Book \<Rightarrow> [] | EBook _ _ \<Rightarrow> ebook_attrs | Audiobook _ _ \<Rightarrow> audiobook_attrs)"
  by (simp add: resource_to_dict_def ctor_defs split: variant.splits)

lemma resource_to_dict_type:
  "map_of (resource_to_dict r) ''type'' = Some (PStr (str (class_name (variant r))))"
  by (simp add: resource_to_dict_def Let_def split: variant.splits)

lemma map_of_pop: "map_of (filter (\<lambda>kv. fst kv \<noteq> k) d) = (map_of d)(k := None)"
  by (induction d) (auto simp: fun_eq_iff)

lemma keys_of_map_of: "map_of d1 = map_of d2 \<Longrightarrow> set (map fst d1) = set (map fst d2)"
  by (metis dom_map_of_conv_image_fst set_map)

lemma construct_cong:
  assumes "map_of k1 = map_of k2" and "mk k1 = mk k2"
  shows "construct extra mk k1 = construct extra mk k2"
proof -
  have "list_all (\<lambda>k. k \<in> set (common_attrs @ extra)) (map fst k1) =
        list_all (\<lambda>k. k \<in> set (common_attrs @ extra)) (map fst k2)"
    by (simp only: list_all_iff keys_of_map_of [OF assms(1)])
  then show ?thesis
    unfolding construct_def using assms by simp
qed

lemma dict_to_resource_cong:
  assumes "map_of d1 = map_of d2"
  shows "dict_to_resource d1 = dict_to_resource d2"
proof -
  let ?p = "\<lambda>d. filter (\<lambda>kv. fst kv \<noteq> ''type'') d"
  have p: "map_of (?p d1) = map_of (?p d2)"
    using assms by (simp add: map_of_pop)
  have "new_Book (?p d1) = new_Book (?p d2)"
    unfolding new_Book_def using p by (rule construct_cong) simp
  moreover have "new_EBook (?p d1) = new_EBook (?p d2)"
    unfolding new_EBook_def using p by (rule construct_cong) (simp add: p)
  moreover have "new_Audiobook (?p d1) = new_Audiobook (?p d2)"
    unfolding new_Audiobook_def using p by (rule construct_cong) (simp add: p)
  ultimately show ?thesis
    using assms by (simp add: dict_to_resource_def Let_def split: option.splits)
qed

lemma construct_variant:
  assumes "construct extra mk kw = Inr r"
  shows "\<exists>v. mk kw = Some v \<and> variant r = v"
  using assms
  by (auto simp: construct_def split: if_splits option.splits bind_splits)

lemma dict_to_resource_tag:
  assumes "dict_to_resource data = Inr r"
  shows "map_of data ''type'' = Some (PStr (str (class_name (variant r))))"
proof -
  let ?p = "filter (\<lambda>kv. fst kv \<noteq> ''type'') data"
  from assms obtain t where t: "map_of data ''type'' = Some t"
    by (auto simp: dict_to_resource_def split: option.splits)
  consider "t = PStr (str ''EBook'')" "new_EBook ?p = Inr r"
    | "t = PStr (str ''Audiobook'')" "new_Audiobook ?p = Inr r"
    | "t = PStr (str ''Book'')" "new_Book ?p = Inr r"
    using assms t by (auto simp: dict_to_resource_def Let_def split: if_splits)
  then show ?thesis
  proof cases
    case 1
    from construct_variant [OF 1(2) [unfolded new_EBook_def]]
    have "class_name (variant r) = ''EBook''"
      by (auto split: bind_splits) (metis class_name.simps(2))
    with 1 t show ?thesis by simp
  next
    case 2
    from construct_variant [OF 2(2) [unfolded new_Audiobook_def]]
    have "class_name (variant r) = ''Audiobook''"
      by (auto split: bind_splits) (metis class_name.simps(3))
    with 2 t show ?thesis by simp
  next
    case 3
    from construct_variant [OF 3(2) [unfolded new_Book_def]]
    have "class_name (variant r) = ''Book''"
      by (metis class_name.simps(1) option.inject)
    with 3 t show ?thesis by simp
  qed
qed

lemma faithful_reliable_storage: "faithful reliable_storage"
  by (simp add: faithful_def reliable_storage_def read_file_def)

lemma init_of_serialized:
  assumes "load_data st f fs = Inr (map resource_to_dict rs)"
  shows "init st f fs = Inr \<lparr>storage_file = f, resources = rs\<rparr>"
  using assms
  by (simp add: init_def load_resources_def map_result_round_trip dict_to_resource_inverse)

section \<open>The catalog\<close>

text \<open>
  C1. Identifier uniqueness is an invariant: from a manager in which no two records share
  an identifier, \<open>add_resource\<close> and \<open>remove_resource\<close> lead to a manager in which no
  two records share one, whatever the record, the identifier and the store, and whether
  the call returns or raises.
\<close>

theorem unique_ids_invariant:
  assumes "unique_ids m"
  shows "unique_ids (fst (snd (add_resource st r (m, fs))))
       \<and> unique_ids (fst (snd (remove_resource st rid (m, fs))))"
proof
  show "unique_ids (fst (snd (add_resource st r (m, fs))))"
  proof (cases "list_ex (\<lambda>x. resource_id x = resource_id r) (resources m)")
    case True
    then show ?thesis using assms by (simp add: add_resource_duplicate)
  next
    case False
    then have "resource_id r \<notin> resource_id ` set (resources m)"
      by (auto simp: list_ex_iff)
    with False assms show ?thesis
      by (simp add: add_resource_fresh unique_ids_def)
  qed
next
  show "unique_ids (fst (snd (remove_resource st rid (m, fs))))"
  proof (cases "get_resource m rid")
    case None
    then show ?thesis using assms by (simp add: remove_resource_absent)
  next
    case (Some x)
    then show ?thesis using assms
      by (simp add: remove_resource_present unique_ids_def distinct_map_remove1)
  qed
qed

theorem unique_ids_invariant_witness:
  "unique_ids catalog
   \<and> unique_ids (fst (snd (add_resource full_disk_storage dune_messiah (catalog, []))))
   \<and> unique_ids (fst (snd (remove_resource reliable_storage (str ''e1'') (catalog, []))))
   \<and> resources (fst (snd (remove_resource reliable_storage (str ''e1'') (catalog, []))))
       = [dune, hobbit_audio]"
proof -
  have h: "unique_ids catalog"
    by (simp add: unique_ids_def catalog_def dune_def dune_ebook_def hobbit_audio_def)
  have r: "resources (fst (snd (remove_resource reliable_storage (str ''e1'') (catalog, []))))
       = [dune, hobbit_audio]"
    by (simp add: remove_resource_def get_resource_def save_resources_def reliable_storage_def
        catalog_def dune_def dune_ebook_def hobbit_audio_def)
  from h r unique_ids_invariant [OF h, of full_disk_storage dune_messiah "[]"]
    unique_ids_invariant [OF h, of reliable_storage _ "[]" "str ''e1''"]
  show ?thesis by blast
qed

text \<open>
  C2. When \<open>r1\<close> and \<open>r2\<close> have the same identifier, adding \<open>r2\<close> after \<open>r1\<close> raises the
  duplicate-identifier error and leaves the manager and the file system as the first call
  left them; when the identifier was new for the first call, the collection is the old
  one with \<open>r1\<close> at its end and does not contain \<open>r2\<close> (unless it is \<open>r1\<close> itself).
\<close>

theorem duplicate_add_rejected:
  assumes "resource_id r1 = resource_id r2"
    and "add_resource st r1 (m, fs) = (res1, m1, fs1)"
  shows "add_resource st r2 (m1, fs1) = (Inl (ValueError_exists (resource_id r2)), m1, fs1)
       \<and> (\<not> list_ex (\<lambda>r. resource_id r = resource_id r1) (resources m) \<longrightarrow>
            resources m1 = resources m @ [r1] \<and> (r2 \<noteq> r1 \<longrightarrow> r2 \<notin> set (resources m1)))"
proof (cases "list_ex (\<lambda>r. resource_id r = resource_id r1) (resources m)")
  case True
  with assms(2) have "m1 = m" "fs1 = fs"
    by (simp_all add: add_resource_duplicate)
  moreover from True assms(1)
  have "list_ex (\<lambda>r. resource_id r = resource_id r2) (resources m)" by simp
  ultimately show ?thesis using True by (simp add: add_resource_duplicate)
next
  case False
  with assms(2) have m1: "m1 = m\<lparr>resources := resources m @ [r1]\<rparr>"
    by (simp add: add_resource_fresh)
  then have "list_ex (\<lambda>r. resource_id r = resource_id r2) (resources m1)"
    using assms(1) by simp
  then have "add_resource st r2 (m1, fs1) = (Inl (ValueError_exists (resource_id r2)), m1, fs1)"
    by (rule add_resource_duplicate)
  moreover from False assms(1) have "r2 \<notin> set (resources m)"
    by (auto simp: list_ex_iff)
  ultimately show ?thesis using m1 by simp
qed

theorem duplicate_add_rejected_witness:
  "resource_id dune = resource_id dune_messiah
   \<and> add_resource reliable_storage dune (empty_manager, []) =
       (Inr (), empty_manager\<lparr>resources := [dune]\<rparr>, [(library_json, [resource_to_dict dune])])
   \<and> add_resource reliable_storage dune_messiah
        (empty_manager\<lparr>resources := [dune]\<rparr>, [(library_json, [resource_to_dict dune])]) =
       (Inl (ValueError_exists (str ''b1'')), empty_manager\<lparr>resources := [dune]\<rparr>,
        [(library_json, [resource_to_dict dune])])"
proof -
  have h1: "resource_id dune = resource_id dune_messiah"
    by (simp add: dune_def dune_messiah_def)
  have h2: "add_resource reliable_storage dune (empty_manager, []) =
       (Inr (), empty_manager\<lparr>resources := [dune]\<rparr>, [(library_json, [resource_to_dict dune])])"
    by (simp add: add_resource_def save_resources_def reliable_storage_def empty_manager_def)
  have "resource_id dune_messiah = str ''b1''"
    by (simp add: dune_messiah_def)
  with h1 h2 duplicate_add_rejected [OF h1 h2] show ?thesis by simp
qed




text \<open>
  C6. When the write of the store fails during the add of a record with a new identifier,
  or during the remove of an identifier that is present, the call raises the error of
  the store, the file system is as that single write left it, and the collection of the
  manager has already been changed.
\<close>

theorem storage_failure_propagates:
  "(\<not> list_ex (\<lambda>x. resource_id x = resource_id r) (resources m) \<and>
    save_data st (storage_file m) (map resource_to_dict (resources m @ [r])) fs = (Inl e, fs') \<longrightarrow>
      add_resource st r (m, fs) = (Inl e, m\<lparr>resources := resources m @ [r]\<rparr>, fs'))
   \<and> (get_resource m rid = Some x \<and>
      save_data st (storage_file m) (map resource_to_dict (remove1 x (resources m))) fs = (Inl e, fs') \<longrightarrow>
      remove_resource st rid (m, fs) = (Inl e, m\<lparr>resources := remove1 x (resources m)\<rparr>, fs'))"
  by (simp add: add_resource_fresh remove_resource_present save_resources_def)

theorem storage_failure_propagates_witness:
  "add_resource full_disk_storage dune (empty_manager, []) =
     (Inl (OSError ''No space left on device''), empty_manager\<lparr>resources := [dune]\<rparr>, [])
   \<and> remove_resource full_disk_storage (str ''b1'') (catalog, []) =
     (Inl (OSError ''No space left on device''),
      catalog\<lparr>resources := [dune_ebook, hobbit_audio]\<rparr>, [])"
proof -
  have a: "\<not> list_ex (\<lambda>x. resource_id x = resource_id dune) (resources empty_manager)"
    by (simp add: empty_manager_def)
  have s: "save_data full_disk_storage f d [] = (Inl (OSError ''No space left on device''), [])"
    for f d
    by (simp add: full_disk_storage_def)
  have g: "get_resource catalog (str ''b1'') = Some dune"
    by (simp add: get_resource_def catalog_def dune_def)
  have r: "remove1 dune (resources catalog) = [dune_ebook, hobbit_audio]"
    by (simp add: catalog_def)
  from a s
    storage_failure_propagates [where r = dune and m = empty_manager
      and st = full_disk_storage and fs = "[]" and fs' = "[]"
      and e = "OSError ''No space left on device''"]
  have "add_resource full_disk_storage dune (empty_manager, []) =
     (Inl (OSError ''No space left on device''), empty_manager\<lparr>resources := [dune]\<rparr>, [])"
    by (simp add: empty_manager_def)
  moreover from g s r
    storage_failure_propagates [where m = catalog and rid = "str ''b1''" and x = dune
      and st = full_disk_storage and fs = "[]" and fs' = "[]"
      and e = "OSError ''No space left on device''"]
  have "remove_resource full_disk_storage (str ''b1'') (catalog, []) =
     (Inl (OSError ''No space left on device''),
      catalog\<lparr>resources := [dune_ebook, hobbit_audio]\<rparr>, [])"
    by simp
  ultimately show ?thesis by blast
qed

text \<open>
  C7, as amended. Adding records with pairwise distinct identifiers to a manager with an
  empty collection: no call is refused as a duplicate. The outcome of the call number
  \<open>k\<close> is the outcome of its own write, the write of the first \<open>k\<close> records to the file
  of the manager on the file system that the calls before it left, so a call raises
  exactly when its write fails, with the error of that write; when the store never
  fails every call succeeds. Whatever the store does, the collection afterwards is the
  list of the records in the order of the calls, and there is one outcome per call.
\<close>

theorem adds_with_distinct_ids:
  assumes "distinct (map resource_id rs)" and "resources m = []"
  shows "add_all st rs (m, fs) =
       (fst (write_all st (storage_file m) [] rs fs), m\<lparr>resources := rs\<rparr>,
        snd (write_all st (storage_file m) [] rs fs))
     \<and> get_all_resources (fst (snd (add_all st rs (m, fs)))) = rs
     \<and> length (get_all_resources (fst (snd (add_all st rs (m, fs))))) = length rs
     \<and> length (fst (add_all st rs (m, fs))) = length rs
     \<and> (\<forall>k<length rs.
          fst (add_all st rs (m, fs)) ! k =
            fst (save_data st (storage_file m) (map resource_to_dict (take (Suc k) rs))
                   (snd (write_all st (storage_file m) [] (take k rs) fs))))
     \<and> (never_fails st \<longrightarrow> (\<forall>out\<in>set (fst (add_all st rs (m, fs))). out = Inr ()))"
proof -
  let ?w = "write_all st (storage_file m) [] rs fs"
  from assms have "distinct (map resource_id (resources m @ rs))"
    by simp
  from add_all_is_write_all [OF this, of st fs] assms(2)
  have run: "add_all st rs (m, fs) = (fst ?w, m\<lparr>resources := rs\<rparr>, snd ?w)"
    by simp
  have nth: "fst ?w ! k =
      fst (save_data st (storage_file m) (map resource_to_dict (take (Suc k) rs))
             (snd (write_all st (storage_file m) [] (take k rs) fs)))"
    if "k < length rs" for k
    using that by (rule write_all_nth)
  have ok: "\<forall>out\<in>set (fst ?w). out = Inr ()" if "never_fails st"
  proof
    fix out
    assume "out \<in> set (fst ?w)"
    then obtain k where "k < length rs" "out = fst ?w ! k"
      by (auto simp: in_set_conv_nth length_write_all)
    with nth that show "out = Inr ()"
      by (simp add: never_fails_def)
  qed
  from run nth ok show ?thesis
    by (simp add: get_all_resources_def length_write_all)
qed

theorem adds_with_distinct_ids_witness:
  "distinct (map resource_id [dune, dune_ebook, hobbit_audio])
   \<and> resources empty_manager = []
   \<and> never_fails reliable_storage
   \<and> add_all reliable_storage [dune, dune_ebook, hobbit_audio] (empty_manager, []) =
       ([Inr (), Inr (), Inr ()], catalog,
        [(library_json, map resource_to_dict [dune, dune_ebook, hobbit_audio])])
   \<and> add_all small_disk_storage [dune, dune_ebook, hobbit_audio] (empty_manager, []) =
       ([Inr (), Inl (OSError ''No space left on device''),
         Inl (OSError ''No space left on device'')],
        catalog, [(library_json, [resource_to_dict dune])])"
proof -
  let ?rs = "[dune, dune_ebook, hobbit_audio]"
  have h1: "distinct (map resource_id ?rs)"
    by (simp add: dune_def dune_ebook_def hobbit_audio_def)
  have h2: "resources empty_manager = []"
    by (simp add: empty_manager_def)
  have h3: "never_fails reliable_storage"
    by (simp add: never_fails_def reliable_storage_def)
  have m: "empty_manager\<lparr>resources := ?rs\<rparr> = catalog"
    by (simp add: empty_manager_def catalog_def)
  have f: "storage_file empty_manager = library_json"
    by (simp add: empty_manager_def)
  have w1: "write_all reliable_storage library_json [] ?rs [] =
      ([Inr (), Inr (), Inr ()], [(library_json, map resource_to_dict ?rs)])"
    by (simp add: reliable_storage_def write_all_Cons del: write_all.simps(2))
  have w2: "write_all small_disk_storage library_json [] ?rs [] =
      ([Inr (), Inl (OSError ''No space left on device''),
        Inl (OSError ''No space left on device'')],
       [(library_json, [resource_to_dict dune])])"
    by (simp add: small_disk_storage_def write_all_Cons del: write_all.simps(2))
  from adds_with_distinct_ids [OF h1 h2, of reliable_storage "[]"]
  have a1: "add_all reliable_storage ?rs (empty_manager, []) =
       ([Inr (), Inr (), Inr ()], catalog, [(library_json, map resource_to_dict ?rs)])"
    by (simp only: m f w1 fst_conv snd_conv)
  from adds_with_distinct_ids [OF h1 h2, of small_disk_storage "[]"]
  have a2: "add_all small_disk_storage ?rs (empty_manager, []) =
       ([Inr (), Inl (OSError ''No space left on device''),
         Inl (OSError ''No space left on device'')],
        catalog, [(library_json, [resource_to_dict dune])])"
    by (simp only: m f w2 fst_conv snd_conv)
  from h1 h2 h3 a1 a2 show ?thesis by blast
qed

text \<open>
  C7 as stated fails on a store that cannot write: the add of a single record to an empty
  collection raises, although the record has been appended.
\<close>

theorem add_fails_on_full_disk:
  "distinct (map resource_id [dune])
   \<and> resources empty_manager = []
   \<and> add_resource full_disk_storage dune (empty_manager, []) =
       (Inl (OSError ''No space left on device''), empty_manager\<lparr>resources := [dune]\<rparr>, [])
   \<and> add_all full_disk_storage [dune] (empty_manager, []) =
       ([Inl (OSError ''No space left on device'')], empty_manager\<lparr>resources := [dune]\<rparr>, [])"
  by (simp add: add_resource_def save_resources_def full_disk_storage_def empty_manager_def)

text \<open>
  C8. In a manager with unique identifiers that holds a record with identifier \<open>rid\<close>,
  \<open>remove_resource\<close> makes the collection one shorter, leaves exactly the records that do
  not bear \<open>rid\<close>, in their order, and \<open>get_resource\<close> no longer finds \<open>rid\<close>.
\<close>

theorem remove_present:
  assumes "unique_ids m"
    and "list_ex (\<lambda>r. resource_id r = rid) (resources m)"
    and "remove_resource st rid (m, fs) = (res, m', fs')"
  shows "length (resources m') + 1 = length (resources m)
       \<and> resources m' = filter (\<lambda>r. resource_id r \<noteq> rid) (resources m)
       \<and> get_resource m' rid = None"
proof -
  from assms(2) obtain x where x: "get_resource m rid = Some x"
    using get_resource_None_iff [of m rid] by (cases "get_resource m rid") simp_all
  then have mem: "x \<in> set (resources m)"
    using get_resource_SomeD by blast
  from x assms(3) have m': "resources m' = remove1 x (resources m)"
    by (auto simp: remove_resource_present)
  have flt: "remove1 x (resources m) = filter (\<lambda>r. resource_id r \<noteq> rid) (resources m)"
    using assms(1) x unfolding unique_ids_def get_resource_def
    by (rule remove1_found_is_filter)
  from mem have "0 < length (resources m)"
    by (rule length_pos_if_in_set)
  with mem have "length (remove1 x (resources m)) + 1 = length (resources m)"
    by (simp add: length_remove1)
  moreover have "get_resource m' rid = None"
    by (simp add: get_resource_None_iff m' flt list_ex_iff)
  ultimately show ?thesis using m' flt by simp
qed

theorem remove_present_witness:
  "unique_ids catalog
   \<and> list_ex (\<lambda>r. resource_id r = str ''b1'') (resources catalog)
   \<and> remove_resource reliable_storage (str ''b1'') (catalog, []) =
       (Inr (), catalog\<lparr>resources := [dune_ebook, hobbit_audio]\<rparr>,
        [(library_json, [resource_to_dict dune_ebook, resource_to_dict hobbit_audio])])
   \<and> length (resources (catalog\<lparr>resources := [dune_ebook, hobbit_audio]\<rparr>)) + 1
       = length (resources catalog)
   \<and> get_resource (catalog\<lparr>resources := [dune_ebook, hobbit_audio]\<rparr>) (str ''b1'') = None"
proof -
  have h1: "unique_ids catalog"
    by (simp add: unique_ids_def catalog_def dune_def dune_ebook_def hobbit_audio_def)
  have h2: "list_ex (\<lambda>r. resource_id r = str ''b1'') (resources catalog)"
    by (simp add: catalog_def dune_def)
  have h3: "remove_resource reliable_storage (str ''b1'') (catalog, []) =
       (Inr (), catalog\<lparr>resources := [dune_ebook, hobbit_audio]\<rparr>,
        [(library_json, [resource_to_dict dune_ebook, resource_to_dict hobbit_audio])])"
    by (simp add: remove_resource_def get_resource_def save_resources_def reliable_storage_def
        catalog_def dune_def)
  from h1 h2 h3 remove_present [OF h1 h2 h3] show ?thesis by blast
qed

text \<open>
  C9. Removing an identifier that no record bears raises nothing and leaves the manager
  and the file system as they are.
\<close>

theorem remove_absent_is_noop:
  assumes "\<not> list_ex (\<lambda>r. resource_id r = rid) (resources m)"
  shows "remove_resource st rid (m, fs) = (Inr (), m, fs)"
  using assms by (simp add: remove_resource_absent get_resource_None_iff)

theorem remove_absent_is_noop_witness:
  "\<not> list_ex (\<lambda>r. resource_id r = str ''b2'') (resources catalog)
   \<and> remove_resource full_disk_storage (str ''b2'') (catalog, []) = (Inr (), catalog, [])"
proof -
  have h: "\<not> list_ex (\<lambda>r. resource_id r = str ''b2'') (resources catalog)"
    by (simp add: catalog_def dune_def dune_ebook_def hobbit_audio_def)
  from h remove_absent_is_noop [OF h, of full_disk_storage "[]"] show ?thesis by blast
qed

section \<open>Serialization and loading\<close>

text \<open>
  C4. Deserializing the dictionary of a record gives the record back, for each of the
  three variants; so does a list of records, and a manager that is saved to a faithful
  store and loaded again is the same manager. The dictionary carries the class name
  under \<open>type\<close>; its keys are the tag, the common attributes and the attributes of the
  record's own variant, and no others.
\<close>

theorem serialization_round_trip:
  "dict_to_resource (resource_to_dict r) = Inr r
   \<and> map_result dict_to_resource (map resource_to_dict rs) = Inr rs
   \<and> (faithful st \<and> save_resources st m fs = (Inr (), fs') \<longrightarrow>
        load_resources st m fs' = Inr m \<and> init st (storage_file m) fs' = Inr m)
   \<and> map_of (resource_to_dict r) ''type'' = Some (PStr (str (class_name (variant r))))
   \<and> map fst (resource_to_dict r) =
        ''type'' # common_attrs @
          (case variant r of
             Book \<Rightarrow> []
           | EBook _ _ \<Rightarrow> ebook_attrs
           | Audiobook _ _ \<Rightarrow> audiobook_attrs)"
proof -
  have list: "map_result dict_to_resource (map resource_to_dict xs) = Inr xs" for xs
    by (rule map_result_round_trip) (rule dict_to_resource_inverse)
  have "load_resources st m fs' = Inr m \<and> init st (storage_file m) fs' = Inr m"
    if "faithful st" and "save_resources st m fs = (Inr (), fs')"
  proof -
    from that have "load_data st (storage_file m) fs' = Inr (map resource_to_dict (resources m))"
      unfolding faithful_def save_resources_def Let_def by blast
    then show ?thesis
      by (simp add: init_def load_resources_def list)
  qed
  then show ?thesis
    using list dict_to_resource_inverse resource_to_dict_type resource_to_dict_keys by blast
qed

theorem serialization_round_trip_witness:
  "faithful reliable_storage
   \<and> save_resources reliable_storage catalog [] =
       (Inr (), [(library_json, map resource_to_dict [dune, dune_ebook, hobbit_audio])])
   \<and> init reliable_storage library_json
        [(library_json, map resource_to_dict [dune, dune_ebook, hobbit_audio])] = Inr catalog
   \<and> resource_to_dict dune_ebook =
       [(''type'', PStr (str ''EBook'')), (''resource_id'', PStr (str ''e1'')), (''title'', PStr (str ''Dune'')),
        (''author'', PStr (str ''Frank Herbert'')), (''isbn'', PStr (str ''978-0441013593'')),
        (''page_count'', PInt 412), (''file_size_mb'', PNum (16 / 5)),
        (''file_format'', PStr (str ''EPUB''))]
   \<and> dict_to_resource (resource_to_dict dune_ebook) = Inr dune_ebook"
proof -
  have h1: "faithful reliable_storage"
    by (simp add: faithful_def reliable_storage_def read_file_def)
  have h2: "save_resources reliable_storage catalog [] =
       (Inr (), [(library_json, map resource_to_dict [dune, dune_ebook, hobbit_audio])])"
    by (simp add: save_resources_def reliable_storage_def catalog_def)
  have f: "storage_file catalog = library_json"
    by (simp add: catalog_def)
  have d: "resource_to_dict dune_ebook =
       [(''type'', PStr (str ''EBook'')), (''resource_id'', PStr (str ''e1'')), (''title'', PStr (str ''Dune'')),
        (''author'', PStr (str ''Frank Herbert'')), (''isbn'', PStr (str ''978-0441013593'')),
        (''page_count'', PInt 412), (''file_size_mb'', PNum (16 / 5)),
        (''file_format'', PStr (str ''EPUB''))]"
    by (simp add: resource_to_dict_def dune_ebook_def)
  let ?fs = "[(library_json, map resource_to_dict [dune, dune_ebook, hobbit_audio])]"
  from h1 h2 serialization_round_trip [of dune_ebook "[]" reliable_storage catalog "[]" ?fs]
  have "init reliable_storage (storage_file catalog) ?fs = Inr catalog"
    by blast
  then have i: "init reliable_storage library_json ?fs = Inr catalog"
    by (simp only: f)
  have e: "dict_to_resource (resource_to_dict dune_ebook) = Inr dune_ebook"
    by (rule serialization_round_trip [THEN conjunct1])
  from h1 h2 i d e show ?thesis by blast
qed

text \<open>
  C5, as amended. A dictionary without the key \<open>type\<close> raises \<open>KeyError\<close>; one whose tag
  is none of the three class names raises the unknown-type error; one whose tag is a
  class name is passed, without the tag, to the constructor of that class. It succeeds on
  every dictionary that has the entries of the serialization of a record, and a record
  it returns has the variant that the tag names.
\<close>

theorem dict_to_resource_dispatch:
  "(map_of data ''type'' = None \<longrightarrow> dict_to_resource data = Inl (KeyError ''type''))
   \<and> (map_of data ''type'' = Some t \<and> t \<noteq> PStr (str ''EBook'') \<and> t \<noteq> PStr (str ''Audiobook'')
        \<and> t \<noteq> PStr (str ''Book'') \<longrightarrow>
        dict_to_resource data = Inl (ValueError_unknown_type t))
   \<and> (map_of data ''type'' = Some (PStr (str ''EBook'')) \<longrightarrow>
        dict_to_resource data = new_EBook (filter (\<lambda>kv. fst kv \<noteq> ''type'') data))
   \<and> (map_of data ''type'' = Some (PStr (str ''Audiobook'')) \<longrightarrow>
        dict_to_resource data = new_Audiobook (filter (\<lambda>kv. fst kv \<noteq> ''type'') data))
   \<and> (map_of data ''type'' = Some (PStr (str ''Book'')) \<longrightarrow>
        dict_to_resource data = new_Book (filter (\<lambda>kv. fst kv \<noteq> ''type'') data))
   \<and> (map_of data = map_of (resource_to_dict r) \<longrightarrow> dict_to_resource data = Inr r)
   \<and> (dict_to_resource data = Inr r \<longrightarrow>
        map_of data ''type'' = Some (PStr (str (class_name (variant r)))))"
proof -
  have "dict_to_resource data = Inr r" if "map_of data = map_of (resource_to_dict r)"
    using dict_to_resource_cong [OF that] by (simp add: dict_to_resource_inverse)
  moreover have "map_of data ''type'' = Some (PStr (str (class_name (variant r))))"
    if "dict_to_resource data = Inr r"
    using that by (rule dict_to_resource_tag)
  ultimately show ?thesis
    by (simp add: dict_to_resource_def)
qed

theorem dict_to_resource_dispatch_witness:
  "dict_to_resource (tl (resource_to_dict hobbit_audio)) = Inl (KeyError ''type'')
   \<and> dict_to_resource ((''type'', PStr (str ''Magazine'')) # tl (resource_to_dict hobbit_audio))
       = Inl (ValueError_unknown_type (PStr (str ''Magazine'')))
   \<and> dict_to_resource ((''type'', PNone) # tl (resource_to_dict hobbit_audio))
       = Inl (ValueError_unknown_type PNone)
   \<and> dict_to_resource (rev (resource_to_dict hobbit_audio)) = Inr hobbit_audio
   \<and> dict_to_resource [(''type'', PStr (str ''Book''))] = new_Book []"
proof -
  have d: "resource_to_dict hobbit_audio =
      [(''type'', PStr (str ''Audiobook'')), (''resource_id'', PStr (str ''a1'')),
       (''title'', PStr (str ''The Hobbit'')), (''author'', PStr (str ''J.R.R. Tolkien'')),
       (''isbn'', PStr (str ''978-0261103344'')), (''page_count'', PNone),
       (''duration_minutes'', PNum 683), (''narrator'', PStr (str ''Rob Inglis''))]"
    by (simp add: resource_to_dict_def hobbit_audio_def)
  let ?d = "resource_to_dict hobbit_audio"
  let ?mag = "(''type'', PStr (str ''Magazine'')) # tl ?d"
  let ?non = "(''type'', PNone) # tl ?d"
  have "map_of (tl ?d) ''type'' = None"
    by (simp add: d)
  with dict_to_resource_dispatch [of "tl ?d" PNone hobbit_audio]
  have 1: "dict_to_resource (tl ?d) = Inl (KeyError ''type'')"
    by blast
  have "map_of ?mag ''type'' = Some (PStr (str ''Magazine''))"
    by simp
  with dict_to_resource_dispatch [of ?mag "PStr (str ''Magazine'')" hobbit_audio]
  have 2: "dict_to_resource ?mag = Inl (ValueError_unknown_type (PStr (str ''Magazine'')))"
    by simp
  have "map_of ?non ''type'' = Some PNone"
    by simp
  with dict_to_resource_dispatch [of ?non PNone hobbit_audio]
  have 3: "dict_to_resource ?non = Inl (ValueError_unknown_type PNone)"
    by simp
  have "map_of (rev ?d) = map_of ?d"
    unfolding d by (simp add: fun_eq_iff)
  with dict_to_resource_dispatch [of "rev ?d" PNone hobbit_audio]
  have 4: "dict_to_resource (rev ?d) = Inr hobbit_audio"
    by blast
  have "map_of [(''type'', PStr (str ''Book''))] ''type'' = Some (PStr (str ''Book''))"
    by simp
  with dict_to_resource_dispatch [of "[(''type'', PStr (str ''Book''))]" PNone hobbit_audio]
  have 5: "dict_to_resource [(''type'', PStr (str ''Book''))] = new_Book []"
    by simp
  from 1 2 3 4 5 show ?thesis by blast
qed

text \<open>
  C5 as stated fails on a dictionary without a tag: the error is the \<open>KeyError\<close> of
  \<open>pop\<close>, not the unknown-type error. A tag alone does not make the call succeed either:
  the constructor needs its attributes.
\<close>

theorem missing_type_raises_key_error:
  "map_of (tl (resource_to_dict dune)) ''type'' = None
   \<and> dict_to_resource (tl (resource_to_dict dune)) = Inl (KeyError ''type'')
   \<and> KeyError ''type'' \<noteq> ValueError_unknown_type PNone
   \<and> map_of [(''type'', PStr (str ''Book''))] ''type'' = Some (PStr (str ''Book''))
   \<and> dict_to_resource [(''type'', PStr (str ''Book''))] = Inl TypeError"
  by (simp add: dict_to_resource_def resource_to_dict_def dune_def ctor_defs)

text \<open>
  C10. \<open>init\<close> returns the records that the store holds, whatever their identifiers:
  when the file holds the serializations of \<open>rs\<close> the collection is \<open>rs\<close>. For a file
  with two records of the same identifier the load succeeds and the manager holds both,
  so its identifiers are not unique.
\<close>

theorem init_keeps_duplicate_identifiers:
  "(load_data st f fs = Inr (map resource_to_dict rs) \<longrightarrow>
      init st f fs = Inr \<lparr>storage_file = f, resources = rs\<rparr>)
   \<and> (\<exists>data m. init reliable_storage library_json [(library_json, data)] = Inr m
        \<and> resources m = [dune, dune_messiah]
        \<and> resource_id dune = resource_id dune_messiah
        \<and> \<not> unique_ids m)"
proof -
  let ?data = "map resource_to_dict [dune, dune_messiah]"
  let ?m = "\<lparr>storage_file = library_json, resources = [dune, dune_messiah]\<rparr>"
  have "load_data reliable_storage library_json [(library_json, ?data)] = Inr ?data"
    by (simp add: reliable_storage_def read_file_def)
  then have "init reliable_storage library_json [(library_json, ?data)] = Inr ?m"
    by (rule init_of_serialized)
  moreover have "resource_id dune = resource_id dune_messiah"
    by (simp add: dune_def dune_messiah_def)
  moreover from this have "\<not> unique_ids ?m"
    by (simp add: unique_ids_def)
  ultimately have "\<exists>data m. init reliable_storage library_json [(library_json, data)] = Inr m
        \<and> resources m = [dune, dune_messiah]
        \<and> resource_id dune = resource_id dune_messiah
        \<and> \<not> unique_ids m"
    by (intro exI [of _ ?data] exI [of _ ?m]) simp
  with init_of_serialized [of st f fs rs] show ?thesis
    by blast
qed

theorem init_keeps_duplicate_identifiers_witness:
  "load_data reliable_storage library_json
      [(library_json, map resource_to_dict [dune, dune_messiah])]
     = Inr (map resource_to_dict [dune, dune_messiah])
   \<and> init reliable_storage library_json
      [(library_json, map resource_to_dict [dune, dune_messiah])]
     = Inr \<lparr>storage_file = library_json, resources = [dune, dune_messiah]\<rparr>
   \<and> add_resource reliable_storage dune_messiah
        (empty_manager\<lparr>resources := [dune]\<rparr>, []) =
       (Inl (ValueError_exists (str ''b1'')), empty_manager\<lparr>resources := [dune]\<rparr>, [])"
proof -
  have h: "load_data reliable_storage library_json
      [(library_json, map resource_to_dict [dune, dune_messiah])]
     = Inr (map resource_to_dict [dune, dune_messiah])"
    by (simp add: reliable_storage_def read_file_def)
  have a: "add_resource reliable_storage dune_messiah
        (empty_manager\<lparr>resources := [dune]\<rparr>, []) =
       (Inl (ValueError_exists (str ''b1'')), empty_manager\<lparr>resources := [dune]\<rparr>, [])"
    by (simp add: add_resource_def dune_def dune_messiah_def)
  from h a
    init_keeps_duplicate_identifiers [of reliable_storage library_json
      "[(library_json, map resource_to_dict [dune, dune_messiah])]" "[dune, dune_messiah]"]
  show ?thesis by blast
qed

end
